theory Spec2Isabelle
  imports Complex_Main
begin

section \<open>compare\_reconstructions: a shallow embedding\<close>

text \<open>
  The program \<^verbatim>\<open>src/applications/compare_reconstructions.cc\<close> reads two
  reconstructions, finds the views they share by name, and logs error statistics of the
  shared views' poses: once after aligning the orientations alone, once after aligning
  the whole of reconstruction 2 onto reconstruction 1.

  A \<^verbatim>\<open>double\<close> is modelled as a \<^typ>\<open>real\<close>: rounding is not modelled. IEEE
  division by zero does not trap, it yields a NaN or an infinity; the reals have neither,
  so the model stops there with the fault \<open>DivisionByZero\<close>. The other faults are the
  places where the C++ has no defined result at all.
\<close>

subsection \<open>Faults\<close>

text \<open>
  \<open>DegenerateInput\<close> is the typed failure of the specification's error taxonomy. It is
  listed so that statements about it can be written down; no path of the source file
  constructs it. The remaining constructors are what the source can run into:
  a division whose divisor is zero, \<^verbatim>\<open>operator[]\<close> past the end of a vector, the
  dereference of the null pointer that \<^verbatim>\<open>View(id)\<close> or \<^verbatim>\<open>Track(id)\<close> returns for
  an unknown id, and a failed \<^verbatim>\<open>CHECK\<close>.
\<close>

datatype fault = DegenerateInput | DivisionByZero | IndexPastEnd | NullPointer | CheckFailed

subsection \<open>The histogram\<close>

text \<open>
  Modelled from the spec: the class \<^verbatim>\<open>theia::Histogram\<close> is not in the source file.
  The specification (4.4) has the bucket edges \<open>e1 \<dots> en\<close> partition the range into
  \<open>[0,e1), [e1,e2), \<dots>, [e(n-1),en), [en,\<infinity>)\<close>, and a histogram count the errors
  falling in each bucket. So \<open>n\<close> edges give \<open>n + 1\<close> counters, and a value belongs to
  the bucket whose number is the number of edges not above it. \<open>PrintString\<close> renders
  the counters as text; the model keeps the counters.
\<close>

record 'a Histogram =
  boundaries :: "'a list"
  histogram_count :: "nat list"

definition Histogram_new :: "'a list \<Rightarrow> 'a Histogram" where
  "Histogram_new bins =
     \<lparr>boundaries = bins, histogram_count = replicate (Suc (length bins)) 0\<rparr>"

definition bucket_of :: "('a::linorder) list \<Rightarrow> 'a \<Rightarrow> nat" where
  "bucket_of edges x = length (filter (\<lambda>e. e \<le> x) edges)"

definition Histogram_Add :: "('a::linorder) Histogram \<Rightarrow> 'a \<Rightarrow> 'a Histogram" where
  "Histogram_Add h x =
     (let b = bucket_of (boundaries h) x
      in h\<lparr>histogram_count := (histogram_count h)[b := Suc (histogram_count h ! b)]\<rparr>)"

definition Histogram_PrintString :: "'a Histogram \<Rightarrow> nat list" where
  "Histogram_PrintString h = histogram_count h"

subsection \<open>PrintMeanMedianHistogram\<close>

text \<open>
  The function returns the text \<^verbatim>\<open>"Mean = %lf\nMedian = %lf\nHistogram:\n%s"\<close>
  filled with three arguments. The model returns the three arguments.
\<close>

record error_msg =
  Mean :: real
  Median :: real
  Histogram_string :: "nat list"

text \<open>Lines 59 to 64: one pass over the vector feeds the histogram and sums the errors.\<close>

fun accumulate :: "real Histogram \<times> real \<Rightarrow> real list \<Rightarrow> real Histogram \<times> real" where
  "accumulate (histogram, mean) [] = (histogram, mean)"
| "accumulate (histogram, mean) (error # rest) =
     accumulate (Histogram_Add histogram error, mean + error) rest"

text \<open>Line 66: \<^verbatim>\<open>mean /= static_cast<double>(sorted_errors.size())\<close>.\<close>

definition divide_checked :: "real \<Rightarrow> real \<Rightarrow> fault + real" where
  "divide_checked x y = (if y = 0 then Inl DivisionByZero else Inr (x / y))"

text \<open>Line 70: \<^verbatim>\<open>sorted_errors[sorted_errors.size() / 2]\<close>, an unchecked read.\<close>

definition element_at :: "'a list \<Rightarrow> nat \<Rightarrow> fault + 'a" where
  "element_at xs i = (if i < length xs then Inr (xs ! i) else Inl IndexPastEnd)"

definition PrintMeanMedianHistogram :: "real list \<Rightarrow> real list \<Rightarrow> fault + error_msg" where
  "PrintMeanMedianHistogram sorted_errors histogram_bins =
     (case accumulate (Histogram_new histogram_bins, 0) sorted_errors of
        (histogram, mean) \<Rightarrow>
          (case divide_checked mean (real (length sorted_errors)) of
             Inl f \<Rightarrow> Inl f
           | Inr mean' \<Rightarrow>
               (case element_at sorted_errors (length sorted_errors div 2) of
                  Inl f \<Rightarrow> Inl f
                | Inr median \<Rightarrow>
                    Inr \<lparr>Mean = mean', Median = median,
                         Histogram_string = Histogram_PrintString histogram\<rparr>)))"

text \<open>Sequencing of steps that can fault: the first fault ends the computation.\<close>

fun bind_fault :: "fault + 'a \<Rightarrow> ('a \<Rightarrow> fault + 'b) \<Rightarrow> fault + 'b" where
  "bind_fault (Inl f) k = Inl f"
| "bind_fault (Inr x) k = k x"

fun traverse :: "('a \<Rightarrow> fault + 'b) \<Rightarrow> 'a list \<Rightarrow> fault + 'b list" where
  "traverse g [] = Inr []"
| "traverse g (x # xs) =
     bind_fault (g x) (\<lambda>y. bind_fault (traverse g xs) (\<lambda>ys. Inr (y # ys)))"

subsection \<open>AngularDifference\<close>

text \<open>
  Eigen is an external library. Its operations are modelled over the reals by what they
  compute: the norm, \<^verbatim>\<open>normalized()\<close> (which leaves the zero vector as it is), the
  rotation matrix of an angle and an axis (Rodrigues' formula, as
  \<^verbatim>\<open>AngleAxis::toRotationMatrix\<close> writes it), transpose and product of 3x3
  matrices, and the angle of the rotation a matrix stands for, which is the arc cosine of
  \<open>(trace - 1) / 2\<close>: a value in radians between \<open>0\<close> and \<open>pi\<close>.
\<close>

type_synonym Vector3d = "real \<times> real \<times> real"
type_synonym Matrix3d = "Vector3d \<times> Vector3d \<times> Vector3d"

fun norm3 :: "Vector3d \<Rightarrow> real" where
  "norm3 (x, y, z) = sqrt (x * x + y * y + z * z)"

fun normalized :: "Vector3d \<Rightarrow> Vector3d" where
  "normalized (x, y, z) =
     (let n = norm3 (x, y, z) in if n > 0 then (x / n, y / n, z / n) else (x, y, z))"

fun minus3 :: "Vector3d \<Rightarrow> Vector3d \<Rightarrow> Vector3d" where
  "minus3 (a, b, c) (x, y, z) = (a - x, b - y, c - z)"

fun toRotationMatrix :: "real \<Rightarrow> Vector3d \<Rightarrow> Matrix3d" where
  "toRotationMatrix angle (x, y, z) =
     (let s = sin angle; c = cos angle; t = 1 - c
      in ((t * x * x + c,     t * x * y - s * z, t * x * z + s * y),
          (t * x * y + s * z, t * y * y + c,     t * y * z - s * x),
          (t * x * z - s * y, t * y * z + s * x, t * z * z + c)))"

fun transpose3 :: "Matrix3d \<Rightarrow> Matrix3d" where
  "transpose3 ((a, b, c), (d, e, f), (g, h, i)) = ((a, d, g), (b, e, h), (c, f, i))"

fun dot3 :: "Vector3d \<Rightarrow> Vector3d \<Rightarrow> real" where
  "dot3 (a, b, c) (x, y, z) = a * x + b * y + c * z"

fun times3 :: "Matrix3d \<Rightarrow> Matrix3d \<Rightarrow> Matrix3d" where
  "times3 (r1, r2, r3) m =
     (case transpose3 m of (c1, c2, c3) \<Rightarrow>
        ((dot3 r1 c1, dot3 r1 c2, dot3 r1 c3),
         (dot3 r2 c1, dot3 r2 c2, dot3 r2 c3),
         (dot3 r3 c1, dot3 r3 c2, dot3 r3 c3)))"

fun trace3 :: "Matrix3d \<Rightarrow> real" where
  "trace3 ((a, b, c), (d, e, f), (g, h, i)) = a + e + i"

definition rotation_angle :: "Matrix3d \<Rightarrow> real" where
  "rotation_angle m = arccos (max (- 1) (min 1 ((trace3 m - 1) / 2)))"

definition AngularDifference :: "Vector3d \<Rightarrow> Vector3d \<Rightarrow> real" where
  "AngularDifference rotation1 rotation2 =
     (let rotation1_mat = toRotationMatrix (norm3 rotation1) (normalized rotation1);
          rotation2_mat = toRotationMatrix (norm3 rotation2) (normalized rotation2);
          rotation_loop = times3 (transpose3 rotation1_mat) rotation2_mat
      in rotation_angle rotation_loop)"

text \<open>
  \<^verbatim>\<open>theia::RadToDeg\<close>, the conversion a value in degrees would need. The source file
  does not call it.
\<close>

definition RadToDeg :: "real \<Rightarrow> real" where
  "RadToDeg angle_radians = angle_radians * 180 / pi"

subsection \<open>Reconstructions\<close>

text \<open>
  Modelled from the spec: the classes \<^verbatim>\<open>Reconstruction\<close>, \<^verbatim>\<open>View\<close>,
  \<^verbatim>\<open>Camera\<close> and \<^verbatim>\<open>Track\<close> are not in the source file. The specification (6)
  gives what the program reads of them: per named view an orientation, a position and a
  focal length, per track the number of views that see it, and the number of views and
  of tracks. The camera's fields bear the names of the getters the source calls. A name
  that is not a view's has the invalid id, an id that is not a view's (or a track's) has
  the null pointer, and the source dereferences without a test.
\<close>

record Camera =
  GetOrientationAsAngleAxis :: Vector3d
  GetPosition :: Vector3d
  FocalLength :: real

type_synonym ViewId = nat
type_synonym TrackId = nat

record Reconstruction =
  view_name_to_id :: "(string \<times> ViewId) list"
  views :: "(ViewId \<times> Camera) list"
  tracks :: "(TrackId \<times> ViewId list) list"

definition ViewIdFromName :: "Reconstruction \<Rightarrow> string \<Rightarrow> ViewId option" where
  "ViewIdFromName r view_name = map_of (view_name_to_id r) view_name"

definition View :: "Reconstruction \<Rightarrow> ViewId option \<Rightarrow> Camera option" where
  "View r view_id = (case view_id of None \<Rightarrow> None | Some v \<Rightarrow> map_of (views r) v)"

definition deref :: "'a option \<Rightarrow> fault + 'a" where
  "deref p = (case p of None \<Rightarrow> Inl NullPointer | Some x \<Rightarrow> Inr x)"

definition NumViews :: "Reconstruction \<Rightarrow> nat" where
  "NumViews r = length (views r)"

definition NumTracks :: "Reconstruction \<Rightarrow> nat" where
  "NumTracks r = length (tracks r)"

definition TrackIds :: "Reconstruction \<Rightarrow> TrackId list" where
  "TrackIds r = map fst (tracks r)"

definition Track :: "Reconstruction \<Rightarrow> TrackId \<Rightarrow> ViewId list option" where
  "Track r track_id = map_of (tracks r) track_id"

definition Track_NumViews :: "ViewId list \<Rightarrow> int" where
  "Track_NumViews track = int (length track)"

subsection \<open>The library the program calls\<close>

text \<open>
  The functions \<^verbatim>\<open>theia::FindCommonViewsByName\<close>, \<^verbatim>\<open>theia::AlignRotations\<close>,
  \<^verbatim>\<open>AlignReconstructions\<close> and \<^verbatim>\<open>AlignReconstructionsRobust\<close> are not in the source
  file: the program is modelled for any four functions in their place. What the
  call sites fix is kept in the types. \<open>AlignRotations\<close> reads the first sequence and
  overwrites the second. The two aligners read reconstruction 1 through a
  \<^verbatim>\<open>const\<close> reference and overwrite the reconstruction behind the pointer, so a
  function that gives the new value of that reconstruction stands for them; both calls
  are expression statements, so nothing an aligner may report reaches the program.
\<close>

record theia =
  FindCommonViewsByName :: "Reconstruction \<Rightarrow> Reconstruction \<Rightarrow> string list"
  AlignRotations :: "Vector3d list \<Rightarrow> Vector3d list \<Rightarrow> Vector3d list"
  AlignReconstructionsRobust :: "real \<Rightarrow> Reconstruction \<Rightarrow> Reconstruction \<Rightarrow> Reconstruction"
  AlignReconstructions :: "Reconstruction \<Rightarrow> Reconstruction \<Rightarrow> Reconstruction"

subsection \<open>The state of a run\<close>

text \<open>
  A run owns the two reconstructions, writes to the log, and calls into the library.
  The log holds one entry per \<^verbatim>\<open>LOG(INFO)\<close> statement of the source, under the
  heading that statement prints; \<open>library_calls\<close> records which of the mutating
  library functions ran, in order.
\<close>

datatype log_entry =
    NumberOfCameras nat nat nat
  | NumberOf3dPoints nat nat
  | RotationDifferenceWhenAligningOrientations error_msg
  | RotationDifferenceWhenAligningPositions error_msg
  | PositionDifference error_msg
  | FocalLengthErrors error_msg
  | TrackLengths "nat list"

datatype library_call =
    Called_AlignRotations
  | Called_AlignReconstructionsRobust real
  | Called_AlignReconstructions

record process =
  recon1 :: Reconstruction
  recon2 :: Reconstruction
  LOG_INFO :: "log_entry list"
  library_calls :: "library_call list"

subsection \<open>EvaluateRotations\<close>

text \<open>Lines 91 to 101: the orientations of the common views, copied into two vectors.\<close>

definition gather_rotations ::
  "Reconstruction \<Rightarrow> Reconstruction \<Rightarrow> string list \<Rightarrow> fault + (Vector3d \<times> Vector3d) list" where
  "gather_rotations reconstruction1 reconstruction2 common_view_names =
     traverse (\<lambda>view_name.
       let view_id1 = ViewIdFromName reconstruction1 view_name;
           view_id2 = ViewIdFromName reconstruction2 view_name
       in bind_fault (deref (View reconstruction1 view_id1)) (\<lambda>camera1.
          bind_fault (deref (View reconstruction2 view_id2)) (\<lambda>camera2.
          Inr (GetOrientationAsAngleAxis camera1, GetOrientationAsAngleAxis camera2))))
       common_view_names"

text \<open>
  Lines 103 to 111: the second vector is aligned, the differences are measured index by
  index, and the vector of differences is sorted. \<^verbatim>\<open>rotations2[i]\<close> is an unchecked
  read of the vector the library has overwritten.
\<close>

definition EvaluateRotations_errors ::
  "theia \<Rightarrow> Reconstruction \<Rightarrow> Reconstruction \<Rightarrow> string list \<Rightarrow> fault + real list" where
  "EvaluateRotations_errors lib reconstruction1 reconstruction2 common_view_names =
     bind_fault (gather_rotations reconstruction1 reconstruction2 common_view_names) (\<lambda>gathered.
       let rotations1 = map fst gathered;
           rotations2 = AlignRotations lib rotations1 (map snd gathered)
       in bind_fault
            (traverse (\<lambda>i. bind_fault (element_at rotations2 i) (\<lambda>rotation2.
                          Inr (AngularDifference (rotations1 ! i) rotation2)))
               [0 ..< length rotations1])
            (\<lambda>rotation_error_degrees. Inr (sort rotation_error_degrees)))"

definition EvaluateRotations :: "theia \<Rightarrow> string list \<Rightarrow> process \<Rightarrow> fault + process" where
  "EvaluateRotations lib common_view_names s =
     bind_fault (EvaluateRotations_errors lib (recon1 s) (recon2 s) common_view_names)
       (\<lambda>rotation_error_degrees.
     bind_fault (PrintMeanMedianHistogram rotation_error_degrees [1, 2, 5, 10, 15, 20, 45])
       (\<lambda>rotation_error_msg.
     Inr (s\<lparr>LOG_INFO := LOG_INFO s @ [RotationDifferenceWhenAligningOrientations rotation_error_msg],
            library_calls := library_calls s @ [Called_AlignRotations]\<rparr>)))"

subsection \<open>EvaluateAlignedPoseError\<close>

text \<open>
  \<^verbatim>\<open>DEFINE_double(robust_alignment_threshold, 0.0, ...)\<close>: the flag has the value
  given on the command line, and \<open>0.0\<close> when none is given.
\<close>

definition FLAGS_robust_alignment_threshold :: "real option \<Rightarrow> real" where
  "FLAGS_robust_alignment_threshold given = (case given of None \<Rightarrow> 0 | Some v \<Rightarrow> v)"

text \<open>Lines 125 to 130: one of the two aligners overwrites reconstruction 2.\<close>

definition EvaluateAlignedPoseError_align :: "theia \<Rightarrow> real \<Rightarrow> process \<Rightarrow> process" where
  "EvaluateAlignedPoseError_align lib threshold s =
     (if threshold > 0
      then s\<lparr>recon2 := AlignReconstructionsRobust lib threshold (recon1 s) (recon2 s),
             library_calls := library_calls s @ [Called_AlignReconstructionsRobust threshold]\<rparr>
      else s\<lparr>recon2 := AlignReconstructions lib (recon1 s) (recon2 s),
             library_calls := library_calls s @ [Called_AlignReconstructions]\<rparr>)"

text \<open>Lines 135 to 155: the three errors of one common view.\<close>

definition view_errors ::
  "Reconstruction \<Rightarrow> Reconstruction \<Rightarrow> string \<Rightarrow> fault + (real \<times> real \<times> real)" where
  "view_errors reconstruction1 reconstruction2 view_name =
     (let view_id1 = ViewIdFromName reconstruction1 view_name;
          view_id2 = ViewIdFromName reconstruction2 view_name
      in bind_fault (deref (View reconstruction1 view_id1)) (\<lambda>camera1.
         bind_fault (deref (View reconstruction2 view_id2)) (\<lambda>camera2.
         bind_fault (divide_checked \<bar>FocalLength camera1 - FocalLength camera2\<bar>
                       (FocalLength camera1)) (\<lambda>focal_length_error.
         Inr (AngularDifference (GetOrientationAsAngleAxis camera1)
                                (GetOrientationAsAngleAxis camera2),
              norm3 (minus3 (GetPosition camera1) (GetPosition camera2)),
              focal_length_error)))))"

text \<open>Lines 132 to 159: the three error vectors, filled index by index, then sorted.\<close>

definition EvaluateAlignedPoseError_errors ::
  "Reconstruction \<Rightarrow> Reconstruction \<Rightarrow> string list
     \<Rightarrow> fault + (real list \<times> real list \<times> real list)" where
  "EvaluateAlignedPoseError_errors reconstruction1 reconstruction2 common_view_names =
     bind_fault (traverse (view_errors reconstruction1 reconstruction2) common_view_names)
       (\<lambda>errors.
          let rotation_errors_degrees = map fst errors;
              position_errors = map (fst \<circ> snd) errors;
              focal_length_errors = map (snd \<circ> snd) errors
          in Inr (sort rotation_errors_degrees, sort position_errors, sort focal_length_errors))"

text \<open>Lines 161 to 175: the three reports.\<close>

definition EvaluateAlignedPoseError_report ::
  "real list \<times> real list \<times> real list \<Rightarrow> process \<Rightarrow> fault + process" where
  "EvaluateAlignedPoseError_report vectors s =
     (case vectors of (rotation_errors_degrees, position_errors, focal_length_errors) \<Rightarrow>
        bind_fault (PrintMeanMedianHistogram rotation_errors_degrees [1, 2, 5, 10, 15, 20, 45])
          (\<lambda>rotation_error_msg.
        bind_fault (PrintMeanMedianHistogram position_errors [1, 5, 10, 50, 100, 1000])
          (\<lambda>position_error_msg.
        bind_fault (PrintMeanMedianHistogram focal_length_errors
                      [1 / 100, 5 / 100, 2 / 10, 5 / 10, 1, 10, 100])
          (\<lambda>focal_length_error_msg.
        Inr (s\<lparr>LOG_INFO := LOG_INFO s @
                 [RotationDifferenceWhenAligningPositions rotation_error_msg,
                  PositionDifference position_error_msg,
                  FocalLengthErrors focal_length_error_msg]\<rparr>)))))"

definition EvaluateAlignedPoseError ::
  "theia \<Rightarrow> real \<Rightarrow> string list \<Rightarrow> process \<Rightarrow> fault + process" where
  "EvaluateAlignedPoseError lib threshold common_view_names s =
     (let s' = EvaluateAlignedPoseError_align lib threshold s
      in bind_fault (EvaluateAlignedPoseError_errors (recon1 s') (recon2 s') common_view_names)
           (\<lambda>vectors. EvaluateAlignedPoseError_report vectors s'))"

subsection \<open>ComputeTrackLengthHistogram\<close>

definition ComputeTrackLengthHistogram :: "Reconstruction \<Rightarrow> process \<Rightarrow> fault + process" where
  "ComputeTrackLengthHistogram reconstruction s =
     bind_fault
       (traverse (\<lambda>track_id. bind_fault (deref (Track reconstruction track_id))
                    (\<lambda>track. Inr (Track_NumViews track)))
          (TrackIds reconstruction))
       (\<lambda>lengths.
          let histogram = foldl Histogram_Add
                (Histogram_new [2, 3, 4, 5, 6, 7, 8, 9, 10, 15, 20, 25, 50]) lengths
          in Inr (s\<lparr>LOG_INFO := LOG_INFO s @ [TrackLengths (Histogram_PrintString histogram)]\<rparr>))"

subsection \<open>main\<close>

text \<open>
  The arguments are the value of the threshold flag on the command line, if any, and
  what each \<^verbatim>\<open>ReadReconstruction\<close> gives: \<open>None\<close> where it returns false, which fails
  the \<^verbatim>\<open>CHECK\<close> around it.
\<close>

definition main ::
  "theia \<Rightarrow> real option \<Rightarrow> Reconstruction option \<Rightarrow> Reconstruction option \<Rightarrow> fault + process" where
  "main lib given_threshold read1 read2 =
     (case read1 of None \<Rightarrow> Inl CheckFailed | Some reconstruction1 \<Rightarrow>
     (case read2 of None \<Rightarrow> Inl CheckFailed | Some reconstruction2 \<Rightarrow>
        let common_view_names = FindCommonViewsByName lib reconstruction1 reconstruction2;
            s = \<lparr>recon1 = reconstruction1, recon2 = reconstruction2,
                 LOG_INFO =
                   [NumberOfCameras (NumViews reconstruction1) (NumViews reconstruction2)
                      (length common_view_names),
                    NumberOf3dPoints (NumTracks reconstruction1) (NumTracks reconstruction2)],
                 library_calls = []\<rparr>
        in bind_fault (EvaluateRotations lib common_view_names s) (\<lambda>s'.
           EvaluateAlignedPoseError lib (FLAGS_robust_alignment_threshold given_threshold)
             common_view_names s')))"

subsection \<open>The library as the specification describes it\<close>

text \<open>
  Modelled from the spec: the library functions are not in the source file, and the
  specification (4.1 to 4.3) says what they do. The common views are the names present
  in both reconstructions, in a fixed order (here the order of reconstruction 1's
  table). \<open>AlignRotations\<close> computes one rotation and applies it to every element of the
  second sequence. An aligner estimates a similarity transform and applies it to every
  pose of reconstruction 2: \<open>position \<leftarrow> scale \<cdot> R \<cdot> position + t\<close>,
  \<open>orientation \<leftarrow> R \<cdot> orientation\<close>; the focal length is not touched. With fewer than
  3 correspondences, or when the estimation fails, the aligner reports a failure and
  applies nothing.

  The numerical parts are parameters: the three estimators, and the composition of a
  rotation matrix with an orientation held as an angle-axis vector.
\<close>

record Transform =
  rotation :: Matrix3d
  translation :: Vector3d
  scale :: real

record numerics =
  estimate_rotation :: "Vector3d list \<Rightarrow> Vector3d list \<Rightarrow> Matrix3d"
  estimate_similarity :: "Reconstruction \<Rightarrow> Reconstruction \<Rightarrow> Transform option"
  estimate_similarity_robust :: "real \<Rightarrow> Reconstruction \<Rightarrow> Reconstruction \<Rightarrow> Transform option"
  rotate_orientation :: "Matrix3d \<Rightarrow> Vector3d \<Rightarrow> Vector3d"

definition common_view_names_of :: "Reconstruction \<Rightarrow> Reconstruction \<Rightarrow> string list" where
  "common_view_names_of r1 r2 =
     filter (\<lambda>view_name. ViewIdFromName r2 view_name \<noteq> None)
       (remdups (map fst (view_name_to_id r1)))"

fun transform_position :: "Transform \<Rightarrow> Vector3d \<Rightarrow> Vector3d" where
  "transform_position T p =
     (case (rotation T, translation T) of ((r1, r2, r3), (tx, ty, tz)) \<Rightarrow>
        (scale T * dot3 r1 p + tx, scale T * dot3 r2 p + ty, scale T * dot3 r3 p + tz))"

definition apply_transform :: "numerics \<Rightarrow> Transform \<Rightarrow> Reconstruction \<Rightarrow> Reconstruction" where
  "apply_transform N T r =
     r\<lparr>views := map (\<lambda>(view_id, camera).
            (view_id,
             camera\<lparr>GetPosition := transform_position T (GetPosition camera),
                    GetOrientationAsAngleAxis :=
                      rotate_orientation N (rotation T) (GetOrientationAsAngleAxis camera)\<rparr>))
          (views r)\<rparr>"

definition align_as_specified ::
  "numerics \<Rightarrow> Transform option \<Rightarrow> Reconstruction \<Rightarrow> Reconstruction \<Rightarrow> Reconstruction" where
  "align_as_specified N estimate r1 r2 =
     (if length (common_view_names_of r1 r2) < 3 then r2
      else (case estimate of None \<Rightarrow> r2 | Some T \<Rightarrow> apply_transform N T r2))"

definition theia_as_specified :: "numerics \<Rightarrow> theia" where
  "theia_as_specified N =
     \<lparr>FindCommonViewsByName = common_view_names_of,
      AlignRotations = (\<lambda>rotations1 rotations2.
         map (rotate_orientation N (estimate_rotation N rotations1 rotations2)) rotations2),
      AlignReconstructionsRobust = (\<lambda>threshold r1 r2.
         align_as_specified N (estimate_similarity_robust N threshold r1 r2) r1 r2),
      AlignReconstructions = (\<lambda>r1 r2.
         align_as_specified N (estimate_similarity N r1 r2) r1 r2)\<rparr>"

text \<open>The focal length the program reads for a view name, if the name is a view's.\<close>

definition focal_length_of :: "Reconstruction \<Rightarrow> string \<Rightarrow> real option" where
  "focal_length_of r view_name = map_option FocalLength (View r (ViewIdFromName r view_name))"

subsection \<open>The median conventions\<close>

text \<open>
  The specification calls the median it describes the lower-middle one. Of the two
  middle elements of a sorted vector of even length, the lower-middle is the first and
  the upper-middle the second; for an odd length both are the middle element.
\<close>

definition lower_middle :: "'a list \<Rightarrow> 'a" where
  "lower_middle sorted_vector = sorted_vector ! ((length sorted_vector - 1) div 2)"

definition upper_middle :: "'a list \<Rightarrow> 'a" where
  "upper_middle sorted_vector = sorted_vector ! (length sorted_vector div 2)"

subsection \<open>A small run\<close>

text \<open>
  Two reconstructions that share the one view \<open>a\<close>: the same orientation and focal
  length, positions one unit apart, and numerics that estimate the identity.
\<close>

definition identity3 :: Matrix3d where
  "identity3 = ((1, 0, 0), (0, 1, 0), (0, 0, 1))"

definition trivial_numerics :: numerics where
  "trivial_numerics =
     \<lparr>estimate_rotation = (\<lambda>rotations1 rotations2. identity3),
      estimate_similarity = (\<lambda>r1 r2.
         Some \<lparr>rotation = identity3, translation = (0, 0, 0), scale = 1\<rparr>),
      estimate_similarity_robust = (\<lambda>threshold r1 r2.
         Some \<lparr>rotation = identity3, translation = (0, 0, 0), scale = 1\<rparr>),
      rotate_orientation = (\<lambda>R orientation. orientation)\<rparr>"

definition small1 :: Reconstruction where
  "small1 =
     \<lparr>view_name_to_id = [(''a'', 0)],
      views = [(0, \<lparr>GetOrientationAsAngleAxis = (0, 0, 0), GetPosition = (0, 0, 0),
                    FocalLength = 100\<rparr>)],
      tracks = [(0, [0])]\<rparr>"

definition small2 :: Reconstruction where
  "small2 =
     \<lparr>view_name_to_id = [(''a'', 7)],
      views = [(7, \<lparr>GetOrientationAsAngleAxis = (0, 0, 0), GetPosition = (1, 0, 0),
                    FocalLength = 100\<rparr>)],
      tracks = []\<rparr>"

definition small_run :: process where
  "small_run = \<lparr>recon1 = small1, recon2 = small2, LOG_INFO = [], library_calls = []\<rparr>"

subsection \<open>A run with three common views\<close>

text \<open>
  Reconstruction 2 is reconstruction 1 moved by one unit along the first axis, with
  other view ids, another order of the name table and other focal lengths; the numerics
  estimate the translation that moves it back.
\<close>

definition shifting_numerics :: numerics where
  "shifting_numerics =
     \<lparr>estimate_rotation = (\<lambda>rotations1 rotations2. identity3),
      estimate_similarity = (\<lambda>r1 r2.
         Some \<lparr>rotation = identity3, translation = (1, 0, 0), scale = 1\<rparr>),
      estimate_similarity_robust = (\<lambda>threshold r1 r2.
         Some \<lparr>rotation = identity3, translation = (1, 0, 0), scale = 1\<rparr>),
      rotate_orientation = (\<lambda>R orientation. orientation)\<rparr>"

definition three1 :: Reconstruction where
  "three1 =
     \<lparr>view_name_to_id = [(''a'', 0), (''b'', 1), (''c'', 2)],
      views =
        [(0, \<lparr>GetOrientationAsAngleAxis = (0, 0, 0), GetPosition = (0, 0, 0),
               FocalLength = 100\<rparr>),
         (1, \<lparr>GetOrientationAsAngleAxis = (0, 0, 0), GetPosition = (1, 0, 0),
               FocalLength = 100\<rparr>),
         (2, \<lparr>GetOrientationAsAngleAxis = (0, 0, 0), GetPosition = (0, 1, 0),
               FocalLength = 100\<rparr>)],
      tracks = [(0, [0, 1]), (1, [0, 1, 2])]\<rparr>"

definition three2 :: Reconstruction where
  "three2 =
     \<lparr>view_name_to_id = [(''c'', 5), (''a'', 3), (''b'', 4)],
      views =
        [(3, \<lparr>GetOrientationAsAngleAxis = (0, 0, 0), GetPosition = (- 1, 0, 0),
               FocalLength = 110\<rparr>),
         (4, \<lparr>GetOrientationAsAngleAxis = (0, 0, 0), GetPosition = (0, 0, 0),
               FocalLength = 110\<rparr>),
         (5, \<lparr>GetOrientationAsAngleAxis = (0, 0, 0), GetPosition = (- 1, 1, 0),
               FocalLength = 110\<rparr>)],
      tracks = [(0, [3, 4])]\<rparr>"

text \<open>What the aligner makes of it.\<close>

definition three2_aligned :: Reconstruction where
  "three2_aligned =
     \<lparr>view_name_to_id = [(''c'', 5), (''a'', 3), (''b'', 4)],
      views =
        [(3, \<lparr>GetOrientationAsAngleAxis = (0, 0, 0), GetPosition = (0, 0, 0),
               FocalLength = 110\<rparr>),
         (4, \<lparr>GetOrientationAsAngleAxis = (0, 0, 0), GetPosition = (1, 0, 0),
               FocalLength = 110\<rparr>),
         (5, \<lparr>GetOrientationAsAngleAxis = (0, 0, 0), GetPosition = (0, 1, 0),
               FocalLength = 110\<rparr>)],
      tracks = [(0, [3, 4])]\<rparr>"

definition three_run :: process where
  "three_run = \<lparr>recon1 = three1, recon2 = three2, LOG_INFO = [], library_calls = []\<rparr>"

section \<open>Auxiliary facts\<close>

lemma accumulate_eq:
  "accumulate (h, m) xs = (foldl Histogram_Add h xs, m + sum_list xs)"
  by (induction xs arbitrary: h m) (auto simp: algebra_simps)

lemma PMMH_nonempty:
  assumes "xs \<noteq> []"
  shows "PrintMeanMedianHistogram xs bins =
    Inr \<lparr>Mean = sum_list xs / real (length xs), Median = xs ! (length xs div 2),
         Histogram_string = histogram_count (foldl Histogram_Add (Histogram_new bins) xs)\<rparr>"
  using assms
  by (simp add: PrintMeanMedianHistogram_def accumulate_eq divide_checked_def element_at_def
      Histogram_PrintString_def)

lemma PMMH_empty: "PrintMeanMedianHistogram [] bins = Inl DivisionByZero"
  by (simp add: PrintMeanMedianHistogram_def divide_checked_def)

lemma bind_fault_Inr: "bind_fault m k = Inr y \<longleftrightarrow> (\<exists>x. m = Inr x \<and> k x = Inr y)"
  by (cases m) auto

lemma traverse_length: "traverse g xs = Inr ys \<Longrightarrow> length ys = length xs"
  by (induction xs arbitrary: ys) (auto simp: bind_fault_Inr)

lemma traverse_total:
  "(\<And>x. x \<in> set xs \<Longrightarrow> \<exists>y. g x = Inr y) \<Longrightarrow> \<exists>ys. traverse g xs = Inr ys"
proof (induction xs)
  case Nil
  show ?case by simp
next
  case (Cons x xs)
  from Cons.prems obtain y where y: "g x = Inr y" by auto
  from Cons obtain ys where ys: "traverse g xs = Inr ys" by auto
  show ?case by (simp add: y ys)
qed

subsection \<open>Angles\<close>

lemma norm3_axis: "0 \<le> a \<Longrightarrow> norm3 (a, 0, 0) = a"
  by simp

lemma AngularDifference_zero: "AngularDifference (0, 0, 0) (0, 0, 0) = 0"
  by (simp add: AngularDifference_def rotation_angle_def)

lemma AngularDifference_quarter: "AngularDifference (pi / 2, 0, 0) (pi, 0, 0) = pi / 2"
proof -
  have n1: "norm3 (pi / 2, 0, 0) = pi / 2" by (rule norm3_axis) simp
  have n2: "norm3 (pi, 0, 0) = pi" by (rule norm3_axis) simp
  have u1: "normalized (pi / 2, 0, 0) = (1, 0, 0)"
    unfolding normalized.simps n1 by simp
  have u2: "normalized (pi, 0, 0) = (1, 0, 0)"
    unfolding normalized.simps n2 by simp
  show ?thesis
    unfolding AngularDifference_def n1 n2 u1 u2
    by (simp add: rotation_angle_def Let_def)
qed

lemma AngularDifference_range: "0 \<le> AngularDifference a b \<and> AngularDifference a b \<le> pi"
  unfolding AngularDifference_def rotation_angle_def Let_def
  by (intro conjI arccos_lbound arccos_ubound) auto

subsection \<open>The error vectors\<close>

lemma errors_vectors:
  assumes "EvaluateAlignedPoseError_errors r1 r2 names = Inr (rs, ps, fs)"
  shows "length rs = length names \<and> length ps = length names \<and> length fs = length names
         \<and> sorted rs \<and> sorted ps \<and> sorted fs"
  using assms
  by (auto simp: EvaluateAlignedPoseError_errors_def bind_fault_Inr Let_def
      dest: traverse_length)

lemma rotation_vector:
  assumes "EvaluateRotations_errors lib r1 r2 names = Inr es"
  shows "length es = length names \<and> sorted es"
  using assms
  by (auto simp: EvaluateRotations_errors_def gather_rotations_def bind_fault_Inr Let_def
      dest!: traverse_length)

lemma view_errors_total:
  assumes "View r1 (ViewIdFromName r1 n) = Some c1" "View r2 (ViewIdFromName r2 n) = Some c2"
    "FocalLength c1 \<noteq> 0"
  shows "\<exists>e. view_errors r1 r2 n = Inr e"
  using assms by (simp add: view_errors_def deref_def divide_checked_def)

subsection \<open>What each step leaves alone\<close>

lemma EvaluateAlignedPoseError_report_Inr:
  "EvaluateAlignedPoseError_report (rs, ps, fs) s = Inr s' \<longleftrightarrow>
     (\<exists>m1 m2 m3. PrintMeanMedianHistogram rs [1, 2, 5, 10, 15, 20, 45] = Inr m1
        \<and> PrintMeanMedianHistogram ps [1, 5, 10, 50, 100, 1000] = Inr m2
        \<and> PrintMeanMedianHistogram fs [1 / 100, 5 / 100, 2 / 10, 5 / 10, 1, 10, 100] = Inr m3
        \<and> s' = s\<lparr>LOG_INFO := LOG_INFO s @
                 [RotationDifferenceWhenAligningPositions m1, PositionDifference m2,
                  FocalLengthErrors m3]\<rparr>)"
  by (auto simp: EvaluateAlignedPoseError_report_def bind_fault_Inr)

lemma align_frame:
  "recon1 (EvaluateAlignedPoseError_align lib thr s) = recon1 s"
  "LOG_INFO (EvaluateAlignedPoseError_align lib thr s) = LOG_INFO s"
  "recon2 (EvaluateAlignedPoseError_align lib thr s) =
     (if thr > 0 then AlignReconstructionsRobust lib thr (recon1 s) (recon2 s)
      else AlignReconstructions lib (recon1 s) (recon2 s))"
  by (simp_all add: EvaluateAlignedPoseError_align_def)

lemma report_frame:
  "EvaluateAlignedPoseError_report v s = Inr s' \<Longrightarrow> recon1 s' = recon1 s \<and> recon2 s' = recon2 s"
  by (cases v) (auto simp: EvaluateAlignedPoseError_report_Inr)

lemma EvaluateAlignedPoseError_frame:
  assumes "EvaluateAlignedPoseError lib thr names s = Inr s'"
  shows "recon1 s' = recon1 s \<and> recon2 s' = recon2 (EvaluateAlignedPoseError_align lib thr s)"
  using assms
  by (auto simp: EvaluateAlignedPoseError_def Let_def bind_fault_Inr align_frame(1)
      dest: report_frame)

lemma EvaluateRotations_frame:
  assumes "EvaluateRotations lib names s = Inr s'"
  shows "recon1 s' = recon1 s \<and> recon2 s' = recon2 s"
  using assms by (auto simp: EvaluateRotations_def bind_fault_Inr)

lemma focal_apply_transform:
  "focal_length_of (apply_transform N T r) n = focal_length_of r n"
proof -
  have h: "map_of (map (\<lambda>(view_id, camera). (view_id, f camera)) xs) k
        = map_option f (map_of xs k)"
    for f :: "Camera \<Rightarrow> Camera" and xs :: "(ViewId \<times> Camera) list" and k
    by (induction xs) auto
  show ?thesis
    by (simp add: focal_length_of_def apply_transform_def View_def ViewIdFromName_def h
        option.map_comp comp_def del: transform_position.simps split: option.splits)
qed

lemma focal_align_as_specified:
  "focal_length_of (align_as_specified N e r1 r2) n = focal_length_of r2 n"
  by (simp add: align_as_specified_def focal_apply_transform split: option.splits)

subsection \<open>The small run, evaluated\<close>

lemmas small_defs = small_run_def small1_def small2_def trivial_numerics_def identity3_def
  theia_as_specified_def align_as_specified_def common_view_names_of_def apply_transform_def
  ViewIdFromName_def View_def deref_def NumViews_def NumTracks_def

lemmas histogram_defs = Histogram_new_def Histogram_Add_def bucket_of_def

lemma small_rotations:
  "EvaluateRotations (theia_as_specified trivial_numerics) [''a''] small_run =
     Inr (small_run\<lparr>LOG_INFO :=
            [RotationDifferenceWhenAligningOrientations
               \<lparr>Mean = 0, Median = 0, Histogram_string = [1, 0, 0, 0, 0, 0, 0, 0]\<rparr>],
          library_calls := [Called_AlignRotations]\<rparr>)"
  by (simp add: EvaluateRotations_def EvaluateRotations_errors_def gather_rotations_def
      small_defs element_at_def AngularDifference_zero PMMH_nonempty histogram_defs)

lemma small_pose:
  "EvaluateAlignedPoseError (theia_as_specified trivial_numerics) 0 [''a''] small_run =
     Inr (small_run\<lparr>LOG_INFO :=
            [RotationDifferenceWhenAligningPositions
               \<lparr>Mean = 0, Median = 0, Histogram_string = [1, 0, 0, 0, 0, 0, 0, 0]\<rparr>,
             PositionDifference
               \<lparr>Mean = 1, Median = 1, Histogram_string = [0, 1, 0, 0, 0, 0, 0]\<rparr>,
             FocalLengthErrors
               \<lparr>Mean = 0, Median = 0, Histogram_string = [1, 0, 0, 0, 0, 0, 0, 0]\<rparr>],
          library_calls := [Called_AlignReconstructions]\<rparr>)"
  by (simp add: EvaluateAlignedPoseError_def EvaluateAlignedPoseError_align_def
      EvaluateAlignedPoseError_errors_def view_errors_def EvaluateAlignedPoseError_report_def
      small_defs divide_checked_def AngularDifference_zero PMMH_nonempty histogram_defs)

lemma small_main:
  "main (theia_as_specified trivial_numerics) None (Some small1) (Some small2) =
     Inr \<lparr>recon1 = small1, recon2 = small2,
          LOG_INFO =
            [NumberOfCameras 1 1 1, NumberOf3dPoints 1 0,
             RotationDifferenceWhenAligningOrientations
               \<lparr>Mean = 0, Median = 0, Histogram_string = [1, 0, 0, 0, 0, 0, 0, 0]\<rparr>,
             RotationDifferenceWhenAligningPositions
               \<lparr>Mean = 0, Median = 0, Histogram_string = [1, 0, 0, 0, 0, 0, 0, 0]\<rparr>,
             PositionDifference
               \<lparr>Mean = 1, Median = 1, Histogram_string = [0, 1, 0, 0, 0, 0, 0]\<rparr>,
             FocalLengthErrors
               \<lparr>Mean = 0, Median = 0, Histogram_string = [1, 0, 0, 0, 0, 0, 0, 0]\<rparr>],
          library_calls = [Called_AlignRotations, Called_AlignReconstructions]\<rparr>"
  by (simp add: main_def FLAGS_robust_alignment_threshold_def
      EvaluateRotations_def EvaluateRotations_errors_def gather_rotations_def element_at_def
      EvaluateAlignedPoseError_def EvaluateAlignedPoseError_align_def
      EvaluateAlignedPoseError_errors_def view_errors_def EvaluateAlignedPoseError_report_def
      small_defs divide_checked_def AngularDifference_zero PMMH_nonempty histogram_defs)

text \<open>
  \<open>ComputeTrackLengthHistogram\<close> on reconstruction 1 of the small run: its one track has
  one view, below the first edge.
\<close>

lemma small_track:
  "ComputeTrackLengthHistogram small1 small_run =
     Inr (small_run\<lparr>LOG_INFO := [TrackLengths [1, 0, 0, 0, 0, 0, 0, 0, 0, 0, 0, 0, 0, 0]]\<rparr>)"
  by (simp add: ComputeTrackLengthHistogram_def TrackIds_def Track_def Track_NumViews_def
      small_defs histogram_defs Histogram_PrintString_def)

subsection \<open>The run with three views, evaluated\<close>

lemmas three_defs = three_run_def three1_def three2_def three2_aligned_def
  shifting_numerics_def identity3_def theia_as_specified_def align_as_specified_def
  common_view_names_of_def apply_transform_def ViewIdFromName_def View_def deref_def

lemma three_common:
  "FindCommonViewsByName (theia_as_specified shifting_numerics) three1 three2
     = [''a'', ''b'', ''c'']"
  by (simp add: three_defs)

lemma three_aligned:
  "EvaluateAlignedPoseError_align (theia_as_specified shifting_numerics) (1 / 2) three_run =
     \<lparr>recon1 = three1, recon2 = three2_aligned, LOG_INFO = [],
      library_calls = [Called_AlignReconstructionsRobust (1 / 2)]\<rparr>"
  by (simp add: EvaluateAlignedPoseError_align_def three_defs)

lemma three_rotation_errors:
  "EvaluateRotations_errors (theia_as_specified shifting_numerics) three1 three2
     [''a'', ''b'', ''c''] = Inr [0, 0, 0]"
  by (simp add: EvaluateRotations_errors_def gather_rotations_def three_defs element_at_def
      AngularDifference_zero upt_rec)

lemma three_pose_errors:
  "EvaluateAlignedPoseError_errors three1 three2_aligned [''a'', ''b'', ''c''] =
     Inr ([0, 0, 0], [0, 0, 0], [1 / 10, 1 / 10, 1 / 10])"
  by (simp add: EvaluateAlignedPoseError_errors_def view_errors_def three_defs
      divide_checked_def AngularDifference_zero)

lemma three_rotations:
  "EvaluateRotations (theia_as_specified shifting_numerics) [''a'', ''b'', ''c''] three_run =
     Inr (three_run\<lparr>LOG_INFO :=
            [RotationDifferenceWhenAligningOrientations
               \<lparr>Mean = 0, Median = 0, Histogram_string = [3, 0, 0, 0, 0, 0, 0, 0]\<rparr>],
          library_calls := [Called_AlignRotations]\<rparr>)"
  by (simp add: EvaluateRotations_def three_run_def three_rotation_errors PMMH_nonempty
      histogram_defs)

lemma three_pose:
  "EvaluateAlignedPoseError (theia_as_specified shifting_numerics) (1 / 2)
     [''a'', ''b'', ''c''] three_run =
     Inr \<lparr>recon1 = three1, recon2 = three2_aligned,
          LOG_INFO =
            [RotationDifferenceWhenAligningPositions
               \<lparr>Mean = 0, Median = 0, Histogram_string = [3, 0, 0, 0, 0, 0, 0, 0]\<rparr>,
             PositionDifference
               \<lparr>Mean = 0, Median = 0, Histogram_string = [3, 0, 0, 0, 0, 0, 0]\<rparr>,
             FocalLengthErrors
               \<lparr>Mean = 1 / 10, Median = 1 / 10,
                Histogram_string = [0, 0, 3, 0, 0, 0, 0, 0]\<rparr>],
          library_calls = [Called_AlignReconstructionsRobust (1 / 2)]\<rparr>"
  by (simp add: EvaluateAlignedPoseError_def three_aligned three_pose_errors
      EvaluateAlignedPoseError_report_def PMMH_nonempty histogram_defs)

lemma three_focal:
  "focal_length_of three2 ''b'' = Some 110 \<and> focal_length_of three2_aligned ''b'' = Some 110
   \<and> three2_aligned \<noteq> three2"
  by (simp add: focal_length_of_def three_defs)

section \<open>The claims\<close>

subsection \<open>C1: the empty error vector\<close>

text \<open>
  C1, as stated, fails. On the empty vector the source has no check: line 66 divides the
  sum by the size, which is zero, and line 70 reads element \<open>0\<close> of a vector that has
  none. No failure named DegenerateInput is reported.
\<close>

theorem PrintMeanMedianHistogram_empty_counterexample:
  "PrintMeanMedianHistogram [] [1, 2, 5] = Inl DivisionByZero
   \<and> element_at ([] :: real list) (length ([] :: real list) div 2) = Inl IndexPastEnd
   \<and> PrintMeanMedianHistogram [] [1, 2, 5] \<noteq> Inl DegenerateInput"
  by (simp add: PMMH_empty element_at_def)

text \<open>
  C1, amended. For every non-empty error vector the statistics computation returns the
  mean, the median and the histogram: the divisor is the size of the vector and is not
  zero, and the index of the median is inside the vector. On no input does it report
  DegenerateInput.
\<close>

theorem PrintMeanMedianHistogram_nonempty_returns:
  "(sorted_errors \<noteq> [] \<longrightarrow>
      real (length sorted_errors) \<noteq> 0 \<and> length sorted_errors div 2 < length sorted_errors
      \<and> (\<exists>msg. PrintMeanMedianHistogram sorted_errors histogram_bins = Inr msg
            \<and> Mean msg = sum_list sorted_errors / real (length sorted_errors)
            \<and> Median msg = sorted_errors ! (length sorted_errors div 2)))
   \<and> PrintMeanMedianHistogram sorted_errors histogram_bins \<noteq> Inl DegenerateInput"
proof (cases "sorted_errors = []")
  case True
  then show ?thesis by (simp add: PMMH_empty)
next
  case False
  then show ?thesis by (simp add: PMMH_nonempty)
qed

text \<open>C1, amended, on the vector \<open>[1, 2, 3]\<close>.\<close>

theorem PrintMeanMedianHistogram_nonempty_returns_witness:
  "[1, 2, 3] \<noteq> ([] :: real list)
   \<and> (\<exists>msg. PrintMeanMedianHistogram [1, 2, 3] [1, 2, 5] = Inr msg
         \<and> Mean msg = 2 \<and> Median msg = 2)"
  using PrintMeanMedianHistogram_nonempty_returns [of "[1, 2, 3]" "[1, 2, 5]"] by simp

subsection \<open>C2: the unit of the rotation error\<close>

text \<open>
  C2: the reported rotation error is the angular difference in degrees. The source
  stores what \<open>AngularDifference\<close> returns in \<^verbatim>\<open>rotation_error_degrees\<close> and files it
  under edges meant as degrees, but \<open>AngularDifference\<close> returns the angle as Eigen gives
  it, in radians, and nothing converts it. Two orientations a quarter turn apart have
  the difference \<open>pi / 2\<close>, which is below 2, where 90 was claimed; no reported value
  exceeds \<open>pi\<close>.
\<close>

theorem AngularDifference_is_in_radians:
  "AngularDifference (pi / 2, 0, 0) (pi, 0, 0) = pi / 2
   \<and> RadToDeg (AngularDifference (pi / 2, 0, 0) (pi, 0, 0)) = 90
   \<and> AngularDifference (pi / 2, 0, 0) (pi, 0, 0) < 2
   \<and> AngularDifference rotation1 rotation2 \<le> pi"
  using pi_less_4 by (simp add: AngularDifference_quarter AngularDifference_range RadToDeg_def)

subsection \<open>C3: the track-length histogram\<close>

text \<open>
  C3: every run reports the track-length histogram of one reconstruction. The source
  defines \<open>ComputeTrackLengthHistogram\<close>, and \<open>main\<close> never calls it: the log of a run
  that ends holds no track-length entry.
\<close>

theorem main_logs_no_track_lengths:
  assumes "main lib given_threshold read1 read2 = Inr s"
  shows "\<forall>histogram. TrackLengths histogram \<notin> set (LOG_INFO s)"
proof -
  from assms obtain r1 r2 where "read1 = Some r1" "read2 = Some r2"
    by (auto simp: main_def split: option.splits)
  with assms show ?thesis
    by (auto simp: main_def Let_def bind_fault_Inr EvaluateRotations_def
        EvaluateAlignedPoseError_def EvaluateAlignedPoseError_report_def align_frame
        split: prod.splits)
qed

text \<open>C3 on the small run: six log entries, none of them the track lengths.\<close>

theorem main_logs_no_track_lengths_witness:
  "\<exists>s. main (theia_as_specified trivial_numerics) None (Some small1) (Some small2) = Inr s
       \<and> length (LOG_INFO s) = 6
       \<and> (\<forall>histogram. TrackLengths histogram \<notin> set (LOG_INFO s))"
  using main_logs_no_track_lengths [OF small_main] by (simp add: small_main)

subsection \<open>C4: fewer than three correspondences\<close>

text \<open>
  C4, as stated, fails. With the one common view of the small run, and an aligner that
  does what the specification says of fewer than 3 correspondences (it applies nothing),
  \<open>EvaluateAlignedPoseError\<close> goes on and logs the three statistics with their error
  values.
\<close>

theorem EvaluateAlignedPoseError_one_view_counterexample:
  "length [''a''] < (3 :: nat)
   \<and> EvaluateAlignedPoseError (theia_as_specified trivial_numerics) 0 [''a''] small_run =
     Inr (small_run\<lparr>LOG_INFO :=
            [RotationDifferenceWhenAligningPositions
               \<lparr>Mean = 0, Median = 0, Histogram_string = [1, 0, 0, 0, 0, 0, 0, 0]\<rparr>,
             PositionDifference
               \<lparr>Mean = 1, Median = 1, Histogram_string = [0, 1, 0, 0, 0, 0, 0]\<rparr>,
             FocalLengthErrors
               \<lparr>Mean = 0, Median = 0, Histogram_string = [1, 0, 0, 0, 0, 0, 0, 0]\<rparr>],
          library_calls := [Called_AlignReconstructions]\<rparr>)"
  by (simp add: small_pose)

text \<open>
  C4, amended. With one or two correspondences, each naming a view of reconstruction 1
  and of the aligned reconstruction 2, and no focal length of reconstruction 1 zero, the
  Evaluator does not stop: whatever the aligner does or reports, it computes the error
  vectors and logs the rotation, position and focal-length statistics.
\<close>

theorem EvaluateAlignedPoseError_few_views_reports:
  assumes some: "common_view_names \<noteq> []"
    and few: "length common_view_names < 3"
    and known: "\<forall>view_name \<in> set common_view_names. \<exists>camera1 camera2.
        View (recon1 s) (ViewIdFromName (recon1 s) view_name) = Some camera1
        \<and> View (recon2 (EvaluateAlignedPoseError_align lib threshold s))
            (ViewIdFromName (recon2 (EvaluateAlignedPoseError_align lib threshold s)) view_name)
          = Some camera2
        \<and> FocalLength camera1 \<noteq> 0"
  shows "\<exists>rotation_error_msg position_error_msg focal_length_error_msg.
      EvaluateAlignedPoseError lib threshold common_view_names s =
        Inr ((EvaluateAlignedPoseError_align lib threshold s)
               \<lparr>LOG_INFO := LOG_INFO s @
                  [RotationDifferenceWhenAligningPositions rotation_error_msg,
                   PositionDifference position_error_msg,
                   FocalLengthErrors focal_length_error_msg]\<rparr>)"
proof -
  let ?a = "EvaluateAlignedPoseError_align lib threshold s"
  have "\<exists>es. traverse (view_errors (recon1 ?a) (recon2 ?a)) common_view_names = Inr es"
  proof (rule traverse_total)
    fix n assume "n \<in> set common_view_names"
    with known obtain c1 c2 where
      "View (recon1 s) (ViewIdFromName (recon1 s) n) = Some c1"
      "View (recon2 ?a) (ViewIdFromName (recon2 ?a) n) = Some c2"
      "FocalLength c1 \<noteq> 0"
      by blast
    then show "\<exists>e. view_errors (recon1 ?a) (recon2 ?a) n = Inr e"
      unfolding align_frame(1) by (rule view_errors_total)
  qed
  then obtain es
    where es: "traverse (view_errors (recon1 ?a) (recon2 ?a)) common_view_names = Inr es"
    by blast
  have "length es = length common_view_names" using es by (rule traverse_length)
  with some have ne: "es \<noteq> []" by auto
  then have sorted_ne: "sort (map fst es) \<noteq> []" "sort (map (fst \<circ> snd) es) \<noteq> []"
    "sort (map (snd \<circ> snd) es) \<noteq> []"
    by (metis length_sort length_map length_0_conv)+
  show ?thesis
    by (simp add: EvaluateAlignedPoseError_def EvaluateAlignedPoseError_errors_def es
        EvaluateAlignedPoseError_report_def PMMH_nonempty [OF sorted_ne(1)]
        PMMH_nonempty [OF sorted_ne(2)] PMMH_nonempty [OF sorted_ne(3)] align_frame(2)
        del: sort_key_simps) blast
qed

text \<open>C4, amended, on the small run.\<close>

theorem EvaluateAlignedPoseError_few_views_reports_witness:
  "length [''a''] < (3::nat) \<and>
   (\<exists>rotation_error_msg position_error_msg focal_length_error_msg.
      EvaluateAlignedPoseError (theia_as_specified trivial_numerics) 0 [''a''] small_run =
        Inr (small_run
               \<lparr>library_calls := [Called_AlignReconstructions],
                LOG_INFO :=
                  [RotationDifferenceWhenAligningPositions rotation_error_msg,
                   PositionDifference position_error_msg,
                   FocalLengthErrors focal_length_error_msg]\<rparr>))"
  using EvaluateAlignedPoseError_few_views_reports
    [of "[''a'']" small_run "theia_as_specified trivial_numerics" 0]
  by (simp add: EvaluateAlignedPoseError_align_def small_defs)

subsection \<open>C5: which element is the median\<close>

text \<open>
  C5, as stated, fails. The claim has the median at index \<open>len div 2\<close> of the sorted
  vector and calls that the lower-middle convention. For the vector \<open>[4, 1, 3, 2]\<close>,
  sorted to \<open>[1, 2, 3, 4]\<close>, the reported median is \<open>3\<close>, the element at index 2; the
  lower of the two middle elements is \<open>2\<close>.
\<close>

theorem median_lower_middle_counterexample:
  "PrintMeanMedianHistogram (sort [4, 1, 3, 2]) [1, 2, 5] =
     Inr \<lparr>Mean = 5 / 2, Median = 3, Histogram_string = [0, 1, 3, 0]\<rparr>
   \<and> lower_middle (sort [4, 1, 3, 2 :: real]) = 2"
  by (simp add: PMMH_nonempty histogram_defs lower_middle_def)

text \<open>
  C5, amended. For every non-empty error vector the reported median is the element at
  index \<open>len div 2\<close> of the ascending-sorted vector, an element of the vector (nothing
  is interpolated); it is the upper-middle element, not below the lower-middle one.
\<close>

theorem median_is_upper_middle:
  assumes "errors \<noteq> []"
  shows "\<exists>msg. PrintMeanMedianHistogram (sort errors) histogram_bins = Inr msg
           \<and> Median msg = sort errors ! (length errors div 2)
           \<and> Median msg = upper_middle (sort errors)
           \<and> Median msg \<in> set errors
           \<and> lower_middle (sort errors) \<le> Median msg"
proof -
  let ?xs = "sort errors"
  have ne: "?xs \<noteq> []" using assms by (metis length_sort length_0_conv)
  have len: "length ?xs = length errors" by simp
  have i: "length errors div 2 < length ?xs" using assms by simp
  have "?xs ! (length errors div 2) \<in> set ?xs" using i by (rule nth_mem)
  then have mem: "?xs ! (length errors div 2) \<in> set errors" by simp
  have le: "?xs ! ((length ?xs - 1) div 2) \<le> ?xs ! (length errors div 2)"
    by (rule sorted_nth_mono) (use i in \<open>auto simp: len\<close>)
  show ?thesis
    using mem le by (simp add: PMMH_nonempty [OF ne] upper_middle_def lower_middle_def)
qed

text \<open>C5, amended, on the vector \<open>[4, 1, 3, 2]\<close>.\<close>

theorem median_is_upper_middle_witness:
  "[4, 1, 3, 2] \<noteq> ([] :: real list) \<and>
   (\<exists>msg. PrintMeanMedianHistogram (sort [4, 1, 3, 2]) [1, 2, 5] = Inr msg \<and> Median msg = 3)"
  using median_is_upper_middle [of "[4, 1, 3, 2]" "[1, 2, 5]"] by auto

subsection \<open>C6: the worked example\<close>

text \<open>
  C6: on the error vector \<open>[1, 2, 3, 4, 5]\<close> with the edges \<open>[1, 2, 5]\<close> the statistics
  are the mean 3, the median 3, and the counts 0 below 1, 1 in \<open>[1, 2)\<close>, 3 in \<open>[2, 5)\<close>
  and 1 from 5 on. The mean and the median are the source's; the counts are those of the
  histogram as the specification describes it.
\<close>

theorem PrintMeanMedianHistogram_example:
  "PrintMeanMedianHistogram [1, 2, 3, 4, 5] [1, 2, 5] =
     Inr \<lparr>Mean = 3, Median = 3, Histogram_string = [0, 1, 3, 1]\<rparr>"
  by (simp add: PMMH_nonempty histogram_defs)

subsection \<open>C7: the choice of the aligner\<close>

text \<open>
  C7: the alignment step calls the robust aligner exactly when the threshold is greater
  than 0, and the least-squares aligner otherwise; reconstruction 2 becomes what the
  chosen aligner makes of it. A flag that is not given, or given as 0, has the value 0
  and so selects the least-squares aligner.
\<close>

theorem robust_iff_threshold_positive:
  "(last (library_calls (EvaluateAlignedPoseError_align lib threshold s))
      = Called_AlignReconstructionsRobust threshold) = (threshold > 0)
   \<and> (last (library_calls (EvaluateAlignedPoseError_align lib threshold s))
      = Called_AlignReconstructions) = (\<not> threshold > 0)
   \<and> recon2 (EvaluateAlignedPoseError_align lib threshold s) =
       (if threshold > 0
        then AlignReconstructionsRobust lib threshold (recon1 s) (recon2 s)
        else AlignReconstructions lib (recon1 s) (recon2 s))
   \<and> last (library_calls
        (EvaluateAlignedPoseError_align lib (FLAGS_robust_alignment_threshold None) s))
      = Called_AlignReconstructions
   \<and> last (library_calls
        (EvaluateAlignedPoseError_align lib (FLAGS_robust_alignment_threshold (Some 0)) s))
      = Called_AlignReconstructions"
  by (simp add: EvaluateAlignedPoseError_align_def FLAGS_robust_alignment_threshold_def)

subsection \<open>C8: the error vectors\<close>

text \<open>
  C8: every error vector the two evaluations build has one entry per common view name
  and is sorted ascending; and whenever \<open>EvaluateRotations\<close> or
  \<open>EvaluateAlignedPoseError\<close> logs its statistics, each statistic was computed from
  such a vector.
\<close>

theorem error_vectors_sized_and_sorted:
  "(EvaluateRotations_errors lib r1 r2 names = Inr es0 \<longrightarrow>
      length es0 = length names \<and> sorted es0)
   \<and> (EvaluateAlignedPoseError_errors r1 r2' names = Inr (rs0, ps0, fs0) \<longrightarrow>
      length rs0 = length names \<and> length ps0 = length names \<and> length fs0 = length names
      \<and> sorted rs0 \<and> sorted ps0 \<and> sorted fs0)
   \<and> (EvaluateRotations lib names s = Inr s1 \<longrightarrow>
      (\<exists>es msg. length es = length names \<and> sorted es
         \<and> PrintMeanMedianHistogram es [1, 2, 5, 10, 15, 20, 45] = Inr msg
         \<and> LOG_INFO s1 = LOG_INFO s @ [RotationDifferenceWhenAligningOrientations msg]))
   \<and> (EvaluateAlignedPoseError lib thr names s = Inr s2 \<longrightarrow>
      (\<exists>rs ps fs m1 m2 m3.
         length rs = length names \<and> length ps = length names \<and> length fs = length names
         \<and> sorted rs \<and> sorted ps \<and> sorted fs
         \<and> PrintMeanMedianHistogram rs [1, 2, 5, 10, 15, 20, 45] = Inr m1
         \<and> PrintMeanMedianHistogram ps [1, 5, 10, 50, 100, 1000] = Inr m2
         \<and> PrintMeanMedianHistogram fs [1 / 100, 5 / 100, 2 / 10, 5 / 10, 1, 10, 100] = Inr m3
         \<and> LOG_INFO s2 = LOG_INFO s @
              [RotationDifferenceWhenAligningPositions m1, PositionDifference m2,
               FocalLengthErrors m3]))"
proof (intro conjI impI)
  assume "EvaluateRotations_errors lib r1 r2 names = Inr es0"
  from rotation_vector [OF this] show "length es0 = length names" "sorted es0"
    by simp_all
next
  assume "EvaluateAlignedPoseError_errors r1 r2' names = Inr (rs0, ps0, fs0)"
  from errors_vectors [OF this]
  show "length rs0 = length names" "length ps0 = length names" "length fs0 = length names"
    "sorted rs0" "sorted ps0" "sorted fs0"
    by simp_all
next
  assume "EvaluateRotations lib names s = Inr s1"
  then obtain es msg where
    es: "EvaluateRotations_errors lib (recon1 s) (recon2 s) names = Inr es"
    and msg: "PrintMeanMedianHistogram es [1, 2, 5, 10, 15, 20, 45] = Inr msg"
    and s1: "s1 = s\<lparr>LOG_INFO := LOG_INFO s @ [RotationDifferenceWhenAligningOrientations msg],
            library_calls := library_calls s @ [Called_AlignRotations]\<rparr>"
    by (auto simp: EvaluateRotations_def bind_fault_Inr)
  from rotation_vector [OF es] msg s1
  show "\<exists>es msg. length es = length names \<and> sorted es
         \<and> PrintMeanMedianHistogram es [1, 2, 5, 10, 15, 20, 45] = Inr msg
         \<and> LOG_INFO s1 = LOG_INFO s @ [RotationDifferenceWhenAligningOrientations msg]"
    by auto
next
  let ?a = "EvaluateAlignedPoseError_align lib thr s"
  assume "EvaluateAlignedPoseError lib thr names s = Inr s2"
  then obtain v where
    v: "EvaluateAlignedPoseError_errors (recon1 ?a) (recon2 ?a) names = Inr v"
    and r: "EvaluateAlignedPoseError_report v ?a = Inr s2"
    by (auto simp: EvaluateAlignedPoseError_def bind_fault_Inr Let_def)
  obtain rs ps fs where vv: "v = (rs, ps, fs)" by (cases v) auto
  from r [unfolded vv EvaluateAlignedPoseError_report_Inr] obtain m1 m2 m3 where
    m: "PrintMeanMedianHistogram rs [1, 2, 5, 10, 15, 20, 45] = Inr m1"
       "PrintMeanMedianHistogram ps [1, 5, 10, 50, 100, 1000] = Inr m2"
       "PrintMeanMedianHistogram fs [1 / 100, 5 / 100, 2 / 10, 5 / 10, 1, 10, 100] = Inr m3"
    and s2: "s2 = ?a\<lparr>LOG_INFO := LOG_INFO ?a @
                 [RotationDifferenceWhenAligningPositions m1, PositionDifference m2,
                  FocalLengthErrors m3]\<rparr>"
    by blast
  from errors_vectors [OF v [unfolded vv]] m s2
  show "\<exists>rs ps fs m1 m2 m3.
         length rs = length names \<and> length ps = length names \<and> length fs = length names
         \<and> sorted rs \<and> sorted ps \<and> sorted fs
         \<and> PrintMeanMedianHistogram rs [1, 2, 5, 10, 15, 20, 45] = Inr m1
         \<and> PrintMeanMedianHistogram ps [1, 5, 10, 50, 100, 1000] = Inr m2
         \<and> PrintMeanMedianHistogram fs [1 / 100, 5 / 100, 2 / 10, 5 / 10, 1, 10, 100] = Inr m3
         \<and> LOG_INFO s2 = LOG_INFO s @
              [RotationDifferenceWhenAligningPositions m1, PositionDifference m2,
               FocalLengthErrors m3]"
    by (auto simp: align_frame)
qed

text \<open>
  C8 on the run with three views: the vectors are built, they have three entries, and
  both evaluations log statistics of vectors of three entries.
\<close>

theorem error_vectors_sized_and_sorted_witness:
  "EvaluateRotations_errors (theia_as_specified shifting_numerics) three1 three2
      [''a'', ''b'', ''c''] = Inr [0, 0, 0]
   \<and> length [0, 0, 0 :: real] = length [''a'', ''b'', ''c''] \<and> sorted [0, 0, 0 :: real]
   \<and> EvaluateAlignedPoseError_errors three1 three2_aligned [''a'', ''b'', ''c''] =
       Inr ([0, 0, 0], [0, 0, 0], [1 / 10, 1 / 10, 1 / 10])
   \<and> sorted [1 / 10, 1 / 10, 1 / 10 :: real]
   \<and> (\<exists>s1 es msg.
      EvaluateRotations (theia_as_specified shifting_numerics) [''a'', ''b'', ''c''] three_run
        = Inr s1
      \<and> length es = length [''a'', ''b'', ''c''] \<and> sorted es
      \<and> PrintMeanMedianHistogram es [1, 2, 5, 10, 15, 20, 45] = Inr msg
      \<and> LOG_INFO s1 = LOG_INFO three_run @ [RotationDifferenceWhenAligningOrientations msg])
   \<and> (\<exists>s2 rs ps fs m1 m2 m3.
      EvaluateAlignedPoseError (theia_as_specified shifting_numerics) (1 / 2)
        [''a'', ''b'', ''c''] three_run = Inr s2
      \<and> length rs = length [''a'', ''b'', ''c''] \<and> length ps = length [''a'', ''b'', ''c'']
      \<and> length fs = length [''a'', ''b'', ''c'']
      \<and> sorted rs \<and> sorted ps \<and> sorted fs
      \<and> PrintMeanMedianHistogram rs [1, 2, 5, 10, 15, 20, 45] = Inr m1
      \<and> PrintMeanMedianHistogram ps [1, 5, 10, 50, 100, 1000] = Inr m2
      \<and> PrintMeanMedianHistogram fs [1 / 100, 5 / 100, 2 / 10, 5 / 10, 1, 10, 100] = Inr m3
      \<and> LOG_INFO s2 = LOG_INFO three_run @
           [RotationDifferenceWhenAligningPositions m1, PositionDifference m2,
            FocalLengthErrors m3])"
proof -
  let ?lib = "theia_as_specified shifting_numerics"
  let ?names = "[''a'', ''b'', ''c'']"
  obtain s1 where 1: "EvaluateRotations ?lib ?names three_run = Inr s1"
    using three_rotations by blast
  obtain s2 where 2: "EvaluateAlignedPoseError ?lib (1 / 2) ?names three_run = Inr s2"
    using three_pose by blast
  from error_vectors_sized_and_sorted
    [where lib = ?lib and names = ?names and s = three_run and ?s1.0 = s1 and ?s2.0 = s2
       and thr = "1 / 2" and ?r1.0 = three1 and ?r2.0 = three2 and r2' = three2_aligned
       and ?es0.0 = "[0, 0, 0]" and ?rs0.0 = "[0, 0, 0]" and ?ps0.0 = "[0, 0, 0]"
       and ?fs0.0 = "[1 / 10, 1 / 10, 1 / 10]"]
    1 2 three_rotation_errors three_pose_errors
  show ?thesis by blast
qed

subsection \<open>C9: what full alignment changes\<close>

text \<open>
  C9: with aligners that apply a transform as the specification describes,
  \<open>EvaluateAlignedPoseError\<close> leaves reconstruction 1 as it was, and the focal length of
  every view, in reconstruction 1 and in reconstruction 2, is what it was before.
\<close>

theorem alignment_keeps_reconstruction1_and_focal_lengths:
  assumes "EvaluateAlignedPoseError (theia_as_specified N) threshold common_view_names s = Inr s'"
  shows "recon1 s' = recon1 s
     \<and> (\<forall>view_name. focal_length_of (recon1 s') view_name = focal_length_of (recon1 s) view_name)
     \<and> (\<forall>view_name. focal_length_of (recon2 s') view_name = focal_length_of (recon2 s) view_name)"
proof -
  let ?lib = "theia_as_specified N"
  from EvaluateAlignedPoseError_frame [OF assms]
  have 1: "recon1 s' = recon1 s"
    and 2: "recon2 s' = recon2 (EvaluateAlignedPoseError_align ?lib threshold s)"
    by simp_all
  have "focal_length_of (recon2 (EvaluateAlignedPoseError_align ?lib threshold s)) n
        = focal_length_of (recon2 s) n" for n
    by (simp add: align_frame(3) theia_as_specified_def focal_align_as_specified)
  with 1 2 show ?thesis by simp
qed

text \<open>
  C9 on the run with three views: the aligner moves reconstruction 2, and the focal
  length of view \<open>b\<close> is 110 before and after.
\<close>

theorem alignment_keeps_reconstruction1_and_focal_lengths_witness:
  "\<exists>s'. EvaluateAlignedPoseError (theia_as_specified shifting_numerics) (1 / 2)
           [''a'', ''b'', ''c''] three_run = Inr s'
     \<and> recon1 s' = recon1 three_run
     \<and> recon2 s' \<noteq> recon2 three_run
     \<and> focal_length_of (recon2 three_run) ''b'' = Some 110
     \<and> focal_length_of (recon2 s') ''b'' = Some 110"
proof -
  let ?lib = "theia_as_specified shifting_numerics"
  obtain s' where 1: "EvaluateAlignedPoseError ?lib (1 / 2) [''a'', ''b'', ''c''] three_run = Inr s'"
    using three_pose by blast
  have 2: "recon2 s' = three2_aligned" using 1 by (auto simp: three_pose)
  have 3: "recon2 three_run = three2" by (simp add: three_run_def)
  from alignment_keeps_reconstruction1_and_focal_lengths [OF 1] 1 2 3 three_focal
  show ?thesis by metis
qed

subsection \<open>C10: what rotation-only evaluation changes\<close>

text \<open>
  C10: \<open>EvaluateRotations\<close> works on copies of the orientations and leaves both
  reconstructions as they were, so in \<open>main\<close> the aligner that follows is given
  reconstruction 2 as it was read, and reconstruction 1 is at the end what was read.
\<close>

theorem EvaluateRotations_mutates_nothing:
  "(EvaluateRotations lib common_view_names s = Inr s' \<longrightarrow>
      recon1 s' = recon1 s \<and> recon2 s' = recon2 s)
   \<and> (main lib given_threshold (Some reconstruction1) (Some reconstruction2) = Inr final \<longrightarrow>
      recon1 final = reconstruction1
      \<and> recon2 final =
          (if FLAGS_robust_alignment_threshold given_threshold > 0
           then AlignReconstructionsRobust lib (FLAGS_robust_alignment_threshold given_threshold)
                  reconstruction1 reconstruction2
           else AlignReconstructions lib reconstruction1 reconstruction2))"
proof (intro conjI impI)
  assume "EvaluateRotations lib common_view_names s = Inr s'"
  then show "recon1 s' = recon1 s" "recon2 s' = recon2 s"
    by (simp_all add: EvaluateRotations_frame)
next
  let ?t = "FLAGS_robust_alignment_threshold given_threshold"
  let ?names = "FindCommonViewsByName lib reconstruction1 reconstruction2"
  assume "main lib given_threshold (Some reconstruction1) (Some reconstruction2) = Inr final"
  then obtain s0 s1 where s0: "recon1 s0 = reconstruction1 \<and> recon2 s0 = reconstruction2"
    and r: "EvaluateRotations lib ?names s0 = Inr s1"
    and p: "EvaluateAlignedPoseError lib ?t ?names s1 = Inr final"
    unfolding main_def Let_def bind_fault_Inr option.case
    by (metis process.select_convs(1,2))
  from EvaluateRotations_frame [OF r] s0
  have s1: "recon1 s1 = reconstruction1" "recon2 s1 = reconstruction2" by simp_all
  from EvaluateAlignedPoseError_frame [OF p] s1
  show "recon1 final = reconstruction1"
    "recon2 final =
          (if ?t > 0 then AlignReconstructionsRobust lib ?t reconstruction1 reconstruction2
           else AlignReconstructions lib reconstruction1 reconstruction2)"
    by (simp_all add: align_frame(3))
qed

text \<open>C10 on the small run.\<close>

theorem EvaluateRotations_mutates_nothing_witness:
  "(\<exists>s'. EvaluateRotations (theia_as_specified trivial_numerics) [''a''] small_run = Inr s'
      \<and> recon1 s' = recon1 small_run \<and> recon2 s' = recon2 small_run)
   \<and> (\<exists>final. main (theia_as_specified trivial_numerics) None (Some small1) (Some small2) = Inr final
      \<and> recon1 final = small1)"
proof -
  let ?lib = "theia_as_specified trivial_numerics"
  obtain s' where 1: "EvaluateRotations ?lib [''a''] small_run = Inr s'"
    using small_rotations by blast
  obtain final where 2: "main ?lib None (Some small1) (Some small2) = Inr final"
    using small_main by blast
  from EvaluateRotations_mutates_nothing
    [of ?lib "[''a'']" small_run s' None small1 small2 final] 1 2
  show ?thesis by blast
qed

end
